theory Spec2Isabelle
  imports Complex_Main
begin

section \<open>Numbers and errors\<close>

text \<open>
  The backtester computes on Python floats. They are modelled as exact reals; the facts
  below are statements about the arithmetic the code writes down, not about binary
  rounding. A Python exception is a value of type \<open>error\<close>; a function that can raise
  returns \<open>error + 'a\<close> with \<open>Inl\<close> for the exception.
\<close>

datatype error = IndexError | ZeroDivisionError

text \<open>Python's \<^verbatim>\<open>a / b\<close> on floats: raises ZeroDivisionError when \<open>b\<close> is zero.\<close>

definition py_div :: "real \<Rightarrow> real \<Rightarrow> error + real" where
  "py_div a b = (if b = 0 then Inl ZeroDivisionError else Inr (a / b))"

text \<open>
  Python's \<^verbatim>\<open>round(x, nd)\<close>: the nearest multiple of \<open>10 ^ -nd\<close>, a tie going to the
  even neighbour.
\<close>

definition py_round :: "real \<Rightarrow> nat \<Rightarrow> real" where
  "py_round x nd =
     (let m = 10 ^ nd; y = x * m; f = \<lfloor>y\<rfloor>; d = y - of_int f
      in (if d < 1 / 2 then of_int f
          else if d > 1 / 2 then of_int (f + 1)
          else if even f then of_int f else of_int (f + 1)) / m)"

section \<open>strategies/base\_strategy.py\<close>

text \<open>
  \<^verbatim>\<open>BaseStrategy\<close> holds \<open>position\<close>, \<open>cash\<close> and \<open>entry_price\<close> (\<open>None\<close> when unset).
  A subclass adds its own buffers: it is an extension of this record.
\<close>

record strategy =
  position :: real
  cash :: real
  entry_price :: "real option"

text \<open>
  \<^verbatim>\<open>get_position_size\<close> (line 70):
  \<^verbatim>\<open>(self.cash * 0.95) / self.entry_price if self.entry_price else 0\<close>.
  An entry price of \<open>None\<close> or \<open>0.0\<close> is falsy.
\<close>

definition get_position_size :: "'a strategy_scheme \<Rightarrow> real" where
  "get_position_size s =
     (case entry_price s of
        None \<Rightarrow> 0
      | Some ep \<Rightarrow> if ep = 0 then 0 else (cash s * 0.95) / ep)"

text \<open>
  \<^verbatim>\<open>buy(price, size=None)\<close> (lines 72-97). The result is the returned flag and the
  strategy after the call.
\<close>

definition buy :: "real \<Rightarrow> real option \<Rightarrow> 'a strategy_scheme \<Rightarrow> bool \<times> 'a strategy_scheme" where
  "buy price size_arg s =
     (if position s > 0 then (False, s)
      else
        let sz = (case size_arg of None \<Rightarrow> get_position_size s | Some z \<Rightarrow> z);
            cost = price * sz
        in if cost > cash s then (False, s)
           else (True, s\<lparr>position := sz, entry_price := Some price, cash := cash s - cost\<rparr>))"

text \<open>\<^verbatim>\<open>sell(price, size=None)\<close> (lines 99-127).\<close>

definition sell :: "real \<Rightarrow> real option \<Rightarrow> 'a strategy_scheme \<Rightarrow> bool \<times> 'a strategy_scheme" where
  "sell price size_arg s =
     (if position s \<le> 0 then (False, s)
      else
        let sz0 = (case size_arg of None \<Rightarrow> position s | Some z \<Rightarrow> z);
            sz = (if sz0 > position s then position s else sz0);
            proceeds = price * sz;
            s1 = s\<lparr>cash := cash s + proceeds, position := position s - sz\<rparr>
        in (True, if position s1 = 0 then s1\<lparr>entry_price := None\<rparr> else s1))"

text \<open>\<^verbatim>\<open>BaseStrategy.reset\<close> (lines 144-150): the cash default is the literal 100000.0.\<close>

definition BaseStrategy_reset :: "'a strategy_scheme \<Rightarrow> 'a strategy_scheme" where
  "BaseStrategy_reset s = s\<lparr>position := 0, cash := 100000, entry_price := None\<rparr>"

text \<open>
  The invariant the specification states for the strategy state: no short position, and
  a position is held exactly when an entry price is recorded.
\<close>

definition strategy_invariant :: "'a strategy_scheme \<Rightarrow> bool" where
  "strategy_invariant s = (position s \<ge> 0 \<and> ((position s > 0) = (entry_price s \<noteq> None)))"

text \<open>
  The invariant together with a positive cash balance: what the loop preserves when it
  starts from a positive capital and every close is positive.
\<close>

definition solvent :: "'a strategy_scheme \<Rightarrow> bool" where
  "solvent s = (strategy_invariant s \<and> cash s > 0)"

section \<open>backtester/engine.py: the simulation loop\<close>

record bar =
  datetime :: string
  "open" :: real
  high :: real
  low :: real
  close :: real
  volume :: real

datatype side = BUY | SELL

text \<open>The dictionaries appended to \<^verbatim>\<open>self.trades\<close>, \<^verbatim>\<open>self.signals\<close> and \<^verbatim>\<open>self.equity_curve\<close>.\<close>

record trade =
  trade_datetime :: string
  trade_type :: side
  trade_price :: real
  trade_size :: real

record signal =
  signal_datetime :: string
  signal_signal :: side
  signal_price :: real

record equity_point =
  equity_datetime :: string
  equity_value :: real
  equity_cash :: real
  equity_position_value :: real
  equity_price :: real

text \<open>
  The abstract methods of \<^verbatim>\<open>BaseStrategy\<close> that a concrete strategy supplies, and
  \<^verbatim>\<open>reset\<close>, which it overrides. \<^verbatim>\<open>should_buy\<close> and \<^verbatim>\<open>should_sell\<close> are queries.
  No strategy of the repository overrides \<^verbatim>\<open>buy\<close>, \<^verbatim>\<open>sell\<close> or \<^verbatim>\<open>get_position_size\<close>.
\<close>

record 'a strategy_ops =
  on_bar :: "bar \<Rightarrow> 'a strategy_scheme \<Rightarrow> 'a strategy_scheme"
  should_buy :: "'a strategy_scheme \<Rightarrow> bool"
  should_sell :: "'a strategy_scheme \<Rightarrow> bool"
  reset :: "'a strategy_scheme \<Rightarrow> 'a strategy_scheme"

text \<open>The mutable fields of \<^verbatim>\<open>BacktestEngine\<close>.\<close>

record 'a engine =
  strat :: "'a strategy_scheme"
  trades :: "trade list"
  equity_curve :: "equity_point list"
  signals :: "signal list"

text \<open>Run start (lines 62-66): reset, then the cash is set to the run's capital.\<close>

definition run_init :: "'a strategy_ops \<Rightarrow> real \<Rightarrow> 'a strategy_scheme \<Rightarrow> 'a engine" where
  "run_init ops initial_capital s =
     \<lparr>strat = (reset ops s)\<lparr>cash := initial_capital\<rparr>,
      trades = [], equity_curve = [], signals = []\<rparr>"

text \<open>The loop body, first step (line 80): \<^verbatim>\<open>self.strategy.on_bar(bar)\<close>.\<close>

definition step_on_bar :: "'a strategy_ops \<Rightarrow> bar \<Rightarrow> 'a engine \<Rightarrow> 'a engine" where
  "step_on_bar ops b e = e\<lparr>strat := on_bar ops b (strat e)\<rparr>"

text \<open>
  The loop body, second step (lines 83-129): the buy check, and the sell check in its
  \<^verbatim>\<open>elif\<close>. Before it calls \<^verbatim>\<open>buy\<close> the engine stores the close as the entry price,
  so that \<^verbatim>\<open>get_position_size\<close> can divide by it.
\<close>

definition step_signals :: "'a strategy_ops \<Rightarrow> bar \<Rightarrow> 'a engine \<Rightarrow> 'a engine" where
  "step_signals ops b e =
     (let current_price = close b; s = strat e
      in if should_buy ops s then
           (let s1 = s\<lparr>entry_price := Some current_price\<rparr>;
                sz = get_position_size s1;
                r = buy current_price (Some sz) s1
            in if fst r then
                 e\<lparr>strat := snd r,
                   trades := trades e @
                     [\<lparr>trade_datetime = datetime b, trade_type = BUY,
                       trade_price = current_price, trade_size = position (snd r)\<rparr>],
                   signals := signals e @
                     [\<lparr>signal_datetime = datetime b, signal_signal = BUY,
                       signal_price = current_price\<rparr>]\<rparr>
               else e\<lparr>strat := snd r\<rparr>)
         else if should_sell ops s then
           (let sz = position s;
                r = sell current_price None s
            in if fst r then
                 e\<lparr>strat := snd r,
                   trades := trades e @
                     [\<lparr>trade_datetime = datetime b, trade_type = SELL,
                       trade_price = current_price, trade_size = sz\<rparr>],
                   signals := signals e @
                     [\<lparr>signal_datetime = datetime b, signal_signal = SELL,
                       signal_price = current_price\<rparr>]\<rparr>
               else e\<lparr>strat := snd r\<rparr>)
         else e)"

text \<open>The loop body, last step (lines 132-141): the equity point of the bar.\<close>

definition step_equity :: "bar \<Rightarrow> 'a engine \<Rightarrow> 'a engine" where
  "step_equity b e =
     (let current_price = close b;
          position_value = position (strat e) * current_price;
          total_value = cash (strat e) + position_value
      in e\<lparr>equity_curve := equity_curve e @
            [\<lparr>equity_datetime = datetime b, equity_value = total_value,
              equity_cash = cash (strat e), equity_position_value = position_value,
              equity_price = current_price\<rparr>]\<rparr>)"

definition process_bar :: "'a strategy_ops \<Rightarrow> bar \<Rightarrow> 'a engine \<Rightarrow> 'a engine" where
  "process_bar ops b e = step_equity b (step_signals ops b (step_on_bar ops b e))"

text \<open>The \<^verbatim>\<open>for\<close> loop over the rows (lines 69-141), from the state of the run start.\<close>

definition run_loop :: "'a strategy_ops \<Rightarrow> bar list \<Rightarrow> real \<Rightarrow> 'a strategy_scheme \<Rightarrow> 'a engine" where
  "run_loop ops data initial_capital s = fold (process_bar ops) data (run_init ops initial_capital s)"

text \<open>
  The strategy states a run passes through: for each bar the state after \<^verbatim>\<open>on_bar\<close>,
  after the attempted buy or sell, and after the equity point is appended.
\<close>

definition bar_states :: "'a strategy_ops \<Rightarrow> bar \<Rightarrow> 'a engine \<Rightarrow> 'a strategy_scheme list" where
  "bar_states ops b e =
     (let e1 = step_on_bar ops b e; e2 = step_signals ops b e1; e3 = step_equity b e2
      in [strat e1, strat e2, strat e3])"

fun loop_states :: "'a strategy_ops \<Rightarrow> bar list \<Rightarrow> 'a engine \<Rightarrow> 'a strategy_scheme list" where
  "loop_states ops [] e = []"
| "loop_states ops (b # bs) e = bar_states ops b e @ loop_states ops bs (process_bar ops b e)"

definition run_states :: "'a strategy_ops \<Rightarrow> bar list \<Rightarrow> real \<Rightarrow> 'a strategy_scheme \<Rightarrow> 'a strategy_scheme list" where
  "run_states ops data initial_capital s =
     strat (run_init ops initial_capital s) # loop_states ops data (run_init ops initial_capital s)"

text \<open>The trades a bar adds to the log.\<close>

definition bar_trades :: "'a strategy_ops \<Rightarrow> bar \<Rightarrow> 'a engine \<Rightarrow> trade list" where
  "bar_trades ops b e = drop (length (trades e)) (trades (process_bar ops b e))"

section \<open>backtester/engine.py: the metrics\<close>

text \<open>
  A value of the report dictionary, and the report: a dictionary from keys to values.
  \<open>PyInf\<close> is \<^verbatim>\<open>float('inf')\<close>.
\<close>

datatype pyval =
    PyInt int
  | PyFloat real
  | PyInf
  | PyStr string
  | PyTrades "trade list"
  | PyEquity "equity_point list"
  | PySignals "signal list"

type_synonym report = "string \<rightharpoonup> pyval"

text \<open>
  The loop of lines 178-183: for \<open>i\<close> in \<^verbatim>\<open>range(total_trades)\<close> the percentage profit
  of \<^verbatim>\<open>buy_trades[i]\<close> against \<^verbatim>\<open>sell_trades[i]\<close>, appended in that order. The division
  raises on a buy price of zero.
\<close>

fun trade_profits :: "trade list \<Rightarrow> trade list \<Rightarrow> nat \<Rightarrow> error + real list" where
  "trade_profits buy_trades sell_trades 0 = Inr []"
| "trade_profits buy_trades sell_trades (Suc i) =
     (case trade_profits buy_trades sell_trades i of
        Inl err \<Rightarrow> Inl err
      | Inr profits \<Rightarrow>
          (let buy_price = trade_price (buy_trades ! i);
               sell_price = trade_price (sell_trades ! i)
           in case py_div (sell_price - buy_price) buy_price of
                Inl err \<Rightarrow> Inl err
              | Inr q \<Rightarrow> Inr (profits @ [q * 100])))"

text \<open>\<^verbatim>\<open>_calculate_max_drawdown\<close> (lines 228-240).\<close>

fun max_drawdown_loop :: "real list \<Rightarrow> real \<Rightarrow> real \<Rightarrow> error + real" where
  "max_drawdown_loop [] peak max_dd = Inr max_dd"
| "max_drawdown_loop (v # vs) peak max_dd =
     (let peak1 = (if v > peak then v else peak)
      in case py_div (peak1 - v) peak1 of
           Inl err \<Rightarrow> Inl err
         | Inr q \<Rightarrow>
             (let drawdown = q * 100
              in max_drawdown_loop vs peak1 (if drawdown > max_dd then drawdown else max_dd)))"

definition calculate_max_drawdown :: "real list \<Rightarrow> error + real" where
  "calculate_max_drawdown equity_values =
     (case equity_values of
        [] \<Rightarrow> Inl IndexError
      | v # _ \<Rightarrow> max_drawdown_loop equity_values v 0)"

text \<open>\<^verbatim>\<open>_calculate_max_consecutive_losses\<close> (lines 258-270).\<close>

fun consecutive_losses_loop :: "real list \<Rightarrow> nat \<Rightarrow> nat \<Rightarrow> nat" where
  "consecutive_losses_loop [] max_losses current_losses = max_losses"
| "consecutive_losses_loop (p # ps) max_losses current_losses =
     (if p \<le> 0
      then consecutive_losses_loop ps (max max_losses (current_losses + 1)) (current_losses + 1)
      else consecutive_losses_loop ps max_losses 0)"

definition calculate_max_consecutive_losses :: "real list \<Rightarrow> nat" where
  "calculate_max_consecutive_losses profits = consecutive_losses_loop profits 0 0"

text \<open>\<^verbatim>\<open>_calculate_profit_factor\<close> (lines 272-280). The quotient is rounded to two places.\<close>

definition gross_profit :: "real list \<Rightarrow> real" where
  "gross_profit profits = sum_list (filter (\<lambda>p. p > 0) profits)"

definition gross_loss :: "real list \<Rightarrow> real" where
  "gross_loss profits = \<bar>sum_list (filter (\<lambda>p. p < 0) profits)\<bar>"

definition calculate_profit_factor :: "real list \<Rightarrow> error + pyval" where
  "calculate_profit_factor profits =
     (if gross_loss profits = 0
      then Inr (if gross_profit profits > 0 then PyInf else PyInt 0)
      else case py_div (gross_profit profits) (gross_loss profits) of
             Inl err \<Rightarrow> Inl err
           | Inr q \<Rightarrow> Inr (PyFloat (py_round q 2)))"

text \<open>
  \<^verbatim>\<open>_calculate_metrics\<close> (lines 147-226). The Sharpe ratio and the annualised return are
  computed by pandas and numpy on floats from the equity curve and the index alone; they
  and their two keys are outside this model. Reading \<^verbatim>\<open>self.data.index[0]\<close> for the
  annualised return raises on an empty frame, which is kept.
\<close>

definition calculate_metrics :: "bar list \<Rightarrow> real \<Rightarrow> 'a engine \<Rightarrow> error + report" where
  "calculate_metrics data initial_capital e =
     (if equity_curve e = [] then
        Inr (map_of
          [(''final_value'', PyFloat initial_capital),
           (''return_pct'', PyInt 0),
           (''total_trades'', PyInt 0),
           (''error'', PyStr ''No data'')])
      else
        (let equity_values = map equity_value (equity_curve e);
             final_value = last equity_values
         in (case py_div (final_value - initial_capital) initial_capital of
               Inl err \<Rightarrow> Inl err
             | Inr q \<Rightarrow>
        (let total_return = q * 100;
             buy_trades = filter (\<lambda>t. trade_type t = BUY) (trades e);
             sell_trades = filter (\<lambda>t. trade_type t = SELL) (trades e);
             total_trades = min (length buy_trades) (length sell_trades)
         in (case trade_profits buy_trades sell_trades total_trades of
               Inl err \<Rightarrow> Inl err
             | Inr profits \<Rightarrow>
        (let won_trades = length (filter (\<lambda>p. p > 0) profits);
             lost_trades = length (filter (\<lambda>p. p \<le> 0) profits)
         in (case calculate_max_drawdown equity_values of
               Inl err \<Rightarrow> Inl err
             | Inr max_drawdown \<Rightarrow>
        (if data = [] then Inl IndexError
         else
        (let max_consecutive_losses = calculate_max_consecutive_losses profits
         in (case calculate_profit_factor profits of
               Inl err \<Rightarrow> Inl err
             | Inr profit_factor \<Rightarrow>
        Inr (map_of
          [(''initial_capital'', PyFloat initial_capital),
           (''final_value'', PyFloat (py_round final_value 2)),
           (''return_pct'', PyFloat (py_round total_return 2)),
           (''max_drawdown_pct'', PyFloat (py_round max_drawdown 2)),
           (''total_trades'', PyInt (int total_trades)),
           (''won_trades'', PyInt (int won_trades)),
           (''lost_trades'', PyInt (int lost_trades)),
           (''win_rate'',
              (if total_trades > 0
               then PyFloat (py_round (real won_trades / real total_trades * 100) 2)
               else PyInt 0)),
           (''avg_profit_pct'',
              (if profits \<noteq> []
               then PyFloat (py_round (sum_list profits / real (length profits)) 2)
               else PyInt 0)),
           (''max_profit_pct'',
              (if profits \<noteq> [] then PyFloat (py_round (Max (set profits)) 2) else PyInt 0)),
           (''max_loss_pct'',
              (if profits \<noteq> [] then PyFloat (py_round (Min (set profits)) 2) else PyInt 0)),
           (''max_consecutive_losses'', PyInt (int max_consecutive_losses)),
           (''profit_factor'', profit_factor),
           (''start_date'', PyStr (datetime (hd data))),
           (''end_date'', PyStr (datetime (last data))),
           (''trading_days'', PyInt (int (length data))),
           (''trades'', PyTrades (trades e)),
           (''equity_curve'', PyEquity (equity_curve e)),
           (''signals'', PySignals (signals e))])))))))))))"

text \<open>
  \<^verbatim>\<open>run(verbose=True)\<close> (lines 46-145). With \<^verbatim>\<open>verbose\<close> the first thing it does is
  print \<^verbatim>\<open>self.data.index[0]\<close> and \<^verbatim>\<open>self.data.index[-1]\<close> (line 58), which raises
  IndexError on an empty frame.
\<close>

definition run :: "bool \<Rightarrow> 'a strategy_ops \<Rightarrow> bar list \<Rightarrow> real \<Rightarrow> 'a strategy_scheme \<Rightarrow> error + report" where
  "run verbose ops data initial_capital s =
     (if verbose \<and> data = [] then Inl IndexError
      else calculate_metrics data initial_capital (run_loop ops data initial_capital s))"

text \<open>
  The pairing as the specification words it: pair \<open>i\<close> is the \<open>i\<close>-th BUY against the
  \<open>i\<close>-th SELL in arrival order, for \<open>i\<close> below the smaller of the two counts.
\<close>

definition buys_of :: "trade list \<Rightarrow> trade list" where
  "buys_of ts = filter (\<lambda>t. trade_type t = BUY) ts"

definition sells_of :: "trade list \<Rightarrow> trade list" where
  "sells_of ts = filter (\<lambda>t. trade_type t = SELL) ts"

definition pair_count :: "trade list \<Rightarrow> nat" where
  "pair_count ts = min (length (buys_of ts)) (length (sells_of ts))"

definition pair_profit_pct :: "trade list \<Rightarrow> nat \<Rightarrow> real" where
  "pair_profit_pct ts i =
     (trade_price (sells_of ts ! i) - trade_price (buys_of ts ! i))
       / trade_price (buys_of ts ! i) * 100"

section \<open>strategies/ma\_cross\_strategy.py\<close>

text \<open>
  \<^verbatim>\<open>MACrossStrategy\<close>: the base fields and the moving-average buffers. The periods are
  positive integers (the metadata gives minima of 2 and 5); a period of zero, on which the
  source divides by zero, is outside this model, and every instance below has positive
  periods.
\<close>

record MACrossStrategy = strategy +
  fast_period :: nat
  slow_period :: nat
  ma_type :: string
  prices :: "real list"
  fast_ma :: "real option"
  slow_ma :: "real option"
  prev_fast_ma :: "real option"
  prev_slow_ma :: "real option"
  fast_multiplier :: real
  slow_multiplier :: real
  fast_ma_history :: "real option list"
  slow_ma_history :: "real option list"

text \<open>\<^verbatim>\<open>__init__\<close> (lines 36-58) with the parameters read from \<^verbatim>\<open>params\<close>.\<close>

definition MACrossStrategy_init :: "nat \<Rightarrow> nat \<Rightarrow> string \<Rightarrow> MACrossStrategy" where
  "MACrossStrategy_init fast slow mt =
     \<lparr>position = 0, cash = 100000, entry_price = None,
      fast_period = fast, slow_period = slow, ma_type = mt,
      prices = [], fast_ma = None, slow_ma = None,
      prev_fast_ma = None, prev_slow_ma = None,
      fast_multiplier = 2 / (real fast + 1), slow_multiplier = 2 / (real slow + 1),
      fast_ma_history = [], slow_ma_history = []\<rparr>"

text \<open>\<^verbatim>\<open>_calculate_sma\<close> (lines 60-64): the mean of the last \<open>period\<close> prices.\<close>

definition calculate_sma :: "real list \<Rightarrow> nat \<Rightarrow> real option" where
  "calculate_sma ps period =
     (if length ps < period then None
      else Some (sum_list (drop (length ps - period) ps) / real period))"

text \<open>\<^verbatim>\<open>_calculate_ema\<close> (lines 66-74); \<open>ps\<close> is \<^verbatim>\<open>self.prices\<close>.\<close>

definition calculate_ema :: "real list \<Rightarrow> real \<Rightarrow> real option \<Rightarrow> real \<Rightarrow> nat \<Rightarrow> real option" where
  "calculate_ema ps current_price prev_ema multiplier period =
     (case prev_ema of
        None \<Rightarrow>
          if length ps \<ge> period
          then Some (sum_list (drop (length ps - period) ps) / real period)
          else None
      | Some pe \<Rightarrow> Some ((current_price - pe) * multiplier + pe))"

text \<open>\<^verbatim>\<open>on_bar\<close> (lines 76-104).\<close>

definition MACrossStrategy_on_bar :: "bar \<Rightarrow> 'a MACrossStrategy_scheme \<Rightarrow> 'a MACrossStrategy_scheme" where
  "MACrossStrategy_on_bar b s =
     (let cl = close b;
          s1 = s\<lparr>prices := prices s @ [cl]\<rparr>;
          s2 = s1\<lparr>prev_fast_ma := fast_ma s1, prev_slow_ma := slow_ma s1\<rparr>;
          s3 = (if ma_type s2 = ''EMA''
                then s2\<lparr>fast_ma := calculate_ema (prices s2) cl (fast_ma s2)
                                     (fast_multiplier s2) (fast_period s2),
                        slow_ma := calculate_ema (prices s2) cl (slow_ma s2)
                                     (slow_multiplier s2) (slow_period s2)\<rparr>
                else s2\<lparr>fast_ma := calculate_sma (prices s2) (fast_period s2),
                        slow_ma := calculate_sma (prices s2) (slow_period s2)\<rparr>)
      in s3\<lparr>fast_ma_history := fast_ma_history s3 @ [fast_ma s3],
            slow_ma_history := slow_ma_history s3 @ [slow_ma s3]\<rparr>)"

text \<open>\<^verbatim>\<open>should_buy\<close> (lines 106-124): the golden cross, only when flat.\<close>

definition MACrossStrategy_should_buy :: "'a MACrossStrategy_scheme \<Rightarrow> bool" where
  "MACrossStrategy_should_buy s =
     (if position s > 0 then False
      else case (fast_ma s, slow_ma s, prev_fast_ma s, prev_slow_ma s) of
             (Some f, Some sl, Some pf, Some psl) \<Rightarrow> pf \<le> psl \<and> f > sl
           | _ \<Rightarrow> False)"

text \<open>\<^verbatim>\<open>should_sell\<close> (lines 126-144): the death cross, only when long.\<close>

definition MACrossStrategy_should_sell :: "'a MACrossStrategy_scheme \<Rightarrow> bool" where
  "MACrossStrategy_should_sell s =
     (if position s \<le> 0 then False
      else case (fast_ma s, slow_ma s, prev_fast_ma s, prev_slow_ma s) of
             (Some f, Some sl, Some pf, Some psl) \<Rightarrow> pf \<ge> psl \<and> f < sl
           | _ \<Rightarrow> False)"

text \<open>\<^verbatim>\<open>reset\<close> (lines 160-169): the base reset, then the buffers.\<close>

definition MACrossStrategy_reset :: "'a MACrossStrategy_scheme \<Rightarrow> 'a MACrossStrategy_scheme" where
  "MACrossStrategy_reset s =
     (BaseStrategy_reset s)\<lparr>prices := [], fast_ma := None, slow_ma := None,
        prev_fast_ma := None, prev_slow_ma := None,
        fast_ma_history := [], slow_ma_history := []\<rparr>"

definition MACrossStrategy_ops :: "unit MACrossStrategy_ext strategy_ops" where
  "MACrossStrategy_ops =
     \<lparr>on_bar = MACrossStrategy_on_bar,
      should_buy = MACrossStrategy_should_buy,
      should_sell = MACrossStrategy_should_sell,
      reset = MACrossStrategy_reset\<rparr>"

text \<open>A bar whose four prices are the close \<open>c\<close>, and a series of them.\<close>

definition flat_bar :: "string \<Rightarrow> real \<Rightarrow> bar" where
  "flat_bar d c = \<lparr>datetime = d, open = c, high = c, low = c, close = c, volume = 0\<rparr>"

definition closes_series :: "real list \<Rightarrow> bar list" where
  "closes_series cs = map (flat_bar ''t'') cs"

text \<open>
  A trade log for the pairing: a breakeven pair, a winning pair, a losing pair and a
  trailing buy, with the engine state that holds it.
\<close>

definition example_trades :: "trade list" where
  "example_trades =
     [\<lparr>trade_datetime = ''d1'', trade_type = BUY, trade_price = 10, trade_size = 1\<rparr>,
      \<lparr>trade_datetime = ''d2'', trade_type = SELL, trade_price = 10, trade_size = 1\<rparr>,
      \<lparr>trade_datetime = ''d3'', trade_type = BUY, trade_price = 10, trade_size = 1\<rparr>,
      \<lparr>trade_datetime = ''d4'', trade_type = SELL, trade_price = 12, trade_size = 1\<rparr>,
      \<lparr>trade_datetime = ''d5'', trade_type = BUY, trade_price = 20, trade_size = 1\<rparr>,
      \<lparr>trade_datetime = ''d6'', trade_type = SELL, trade_price = 15, trade_size = 1\<rparr>,
      \<lparr>trade_datetime = ''d7'', trade_type = BUY, trade_price = 5, trade_size = 1\<rparr>]"

definition example_engine :: "unit engine" where
  "example_engine =
     \<lparr>strat = \<lparr>position = 1, cash = 992, entry_price = Some 5\<rparr>,
      trades = example_trades,
      equity_curve =
        [\<lparr>equity_datetime = ''d7'', equity_value = 997, equity_cash = 992,
          equity_position_value = 5, equity_price = 5\<rparr>],
      signals = []\<rparr>"

section \<open>The strategy contract\<close>

text \<open>
  C3. \<^verbatim>\<open>buy(price, size)\<close> returns false and changes nothing when a position is held or
  the cost \<open>price * size\<close> exceeds the cash; otherwise it returns true, the position is
  \<open>size\<close>, the entry price is \<open>price\<close> and the cash has gone down by \<open>price * size\<close>.
\<close>

theorem buy_outcome:
  "(position s > 0 \<or> price * sz > cash s \<longrightarrow> buy price (Some sz) s = (False, s)) \<and>
   (\<not> (position s > 0 \<or> price * sz > cash s) \<longrightarrow>
      fst (buy price (Some sz) s) \<and>
      position (snd (buy price (Some sz) s)) = sz \<and>
      entry_price (snd (buy price (Some sz) s)) = Some price \<and>
      cash (snd (buy price (Some sz) s)) = cash s - price * sz \<and>
      strategy.more (snd (buy price (Some sz) s)) = strategy.more s)"
  by (simp add: buy_def Let_def)

theorem buy_outcome_witness:
  "buy 10 (Some 5) \<lparr>position = 3, cash = 1000, entry_price = Some 9\<rparr>
     = (False, \<lparr>position = 3, cash = 1000, entry_price = Some 9\<rparr>) \<and>
   buy 10 (Some 500) \<lparr>position = 0, cash = 1000, entry_price = None\<rparr>
     = (False, \<lparr>position = 0, cash = 1000, entry_price = None\<rparr>) \<and>
   fst (buy 10 (Some 5) \<lparr>position = 0, cash = 1000, entry_price = None\<rparr>) \<and>
   position (snd (buy 10 (Some 5) \<lparr>position = 0, cash = 1000, entry_price = None\<rparr>)) = 5 \<and>
   entry_price (snd (buy 10 (Some 5) \<lparr>position = 0, cash = 1000, entry_price = None\<rparr>)) = Some 10 \<and>
   cash (snd (buy 10 (Some 5) \<lparr>position = 0, cash = 1000, entry_price = None\<rparr>)) = 950"
  using buy_outcome [of "\<lparr>position = 3, cash = 1000, entry_price = Some 9\<rparr>" 10 5]
        buy_outcome [of "\<lparr>position = 0, cash = 1000, entry_price = None\<rparr>" 10 500]
        buy_outcome [of "\<lparr>position = 0, cash = 1000, entry_price = None\<rparr>" 10 5]
  by simp

text \<open>
  C4. \<^verbatim>\<open>sell(price, size)\<close> returns false, changing nothing, exactly when no position is
  held. Otherwise the effective size is the position when the size is omitted and the
  smaller of the request and the position when it is given; the cash goes up by
  \<open>price\<close> times the effective size, the position goes down by it, and the entry price
  is cleared when the position reaches zero and kept otherwise.
\<close>

theorem sell_outcome:
  "fst (sell price size_arg s) = (position s > 0) \<and>
   (position s \<le> 0 \<longrightarrow> snd (sell price size_arg s) = s) \<and>
   (position s > 0 \<longrightarrow>
      (let eff = (case size_arg of None \<Rightarrow> position s | Some z \<Rightarrow> min z (position s));
           s' = snd (sell price size_arg s)
       in cash s' = cash s + price * eff \<and>
          position s' = position s - eff \<and>
          entry_price s' = (if position s - eff = 0 then None else entry_price s) \<and>
          strategy.more s' = strategy.more s))"
  by (auto simp: sell_def Let_def min_def split: option.splits)

theorem sell_outcome_witness:
  "\<not> fst (sell 12 None \<lparr>position = 0, cash = 50, entry_price = None\<rparr>) \<and>
   snd (sell 12 None \<lparr>position = 0, cash = 50, entry_price = None\<rparr>)
     = \<lparr>position = 0, cash = 50, entry_price = None\<rparr> \<and>
   snd (sell 12 None \<lparr>position = 5, cash = 50, entry_price = Some 10\<rparr>)
     = \<lparr>position = 0, cash = 110, entry_price = None\<rparr> \<and>
   snd (sell 12 (Some 8) \<lparr>position = 5, cash = 50, entry_price = Some 10\<rparr>)
     = \<lparr>position = 0, cash = 110, entry_price = None\<rparr> \<and>
   snd (sell 12 (Some 2) \<lparr>position = 5, cash = 50, entry_price = Some 10\<rparr>)
     = \<lparr>position = 3, cash = 74, entry_price = Some 10\<rparr>"
  using sell_outcome [of 12 None "\<lparr>position = 0, cash = 50, entry_price = None\<rparr>"]
        sell_outcome [of 12 None "\<lparr>position = 5, cash = 50, entry_price = Some 10\<rparr>"]
        sell_outcome [of 12 "Some 8" "\<lparr>position = 5, cash = 50, entry_price = Some 10\<rparr>"]
        sell_outcome [of 12 "Some 2" "\<lparr>position = 5, cash = 50, entry_price = Some 10\<rparr>"]
  by (simp add: Let_def strategy.equality)

text \<open>
  C5, amended. \<^verbatim>\<open>reset()\<close> clears the position and the entry price and sets the cash
  to the fixed default 100000, whatever the capital of the run; it is the assignment that
  follows it at the start of \<^verbatim>\<open>run\<close> that makes the cash the run's initial capital.
\<close>

theorem reset_restores_default_cash:
  "position (BaseStrategy_reset s) = 0 \<and>
   entry_price (BaseStrategy_reset s) = None \<and>
   cash (BaseStrategy_reset s) = 100000 \<and>
   position (MACrossStrategy_reset m) = 0 \<and>
   entry_price (MACrossStrategy_reset m) = None \<and>
   cash (MACrossStrategy_reset m) = 100000 \<and>
   cash (strat (run_init ops initial_capital s)) = initial_capital \<and>
   position (strat (run_init MACrossStrategy_ops initial_capital m)) = 0 \<and>
   entry_price (strat (run_init MACrossStrategy_ops initial_capital m)) = None"
  by (simp add: BaseStrategy_reset_def MACrossStrategy_reset_def run_init_def MACrossStrategy_ops_def)

text \<open>
  C5 as stated fails: in a run with an initial capital of 50000, a \<^verbatim>\<open>reset()\<close> leaves
  a cash of 100000, before the run and after it.
\<close>

theorem reset_initial_capital_counterexample:
  "cash (MACrossStrategy_reset ((MACrossStrategy_init 2 5 ''SMA'')\<lparr>cash := 50000\<rparr>)) \<noteq> 50000 \<and>
   cash (reset MACrossStrategy_ops (strat (run_loop MACrossStrategy_ops (closes_series [100, 1]) 50000 (MACrossStrategy_init 2 5 ''SMA'')))) \<noteq> 50000"
  by (simp add: BaseStrategy_reset_def MACrossStrategy_reset_def MACrossStrategy_ops_def)

section \<open>The simulation loop\<close>

lemma trades_step_equity: "trades (step_equity b e) = trades e"
  by (simp add: step_equity_def Let_def)

lemma strat_step_equity: "strat (step_equity b e) = strat e"
  by (simp add: step_equity_def Let_def)

lemma trades_step_on_bar: "trades (step_on_bar ops b e) = trades e"
  by (simp add: step_on_bar_def)

lemma strat_step_on_bar: "strat (step_on_bar ops b e) = on_bar ops b (strat e)"
  by (simp add: step_on_bar_def)

lemma step_signals_trades:
  "trades (step_signals ops b e) = trades e @
     (if should_buy ops (strat e) then
        (if fst (buy (close b) (Some (get_position_size ((strat e)\<lparr>entry_price := Some (close b)\<rparr>)))
                   ((strat e)\<lparr>entry_price := Some (close b)\<rparr>))
         then [\<lparr>trade_datetime = datetime b, trade_type = BUY, trade_price = close b,
                 trade_size = position (strat (step_signals ops b e))\<rparr>]
         else [])
      else if should_sell ops (strat e) \<and> fst (sell (close b) None (strat e))
      then [\<lparr>trade_datetime = datetime b, trade_type = SELL, trade_price = close b,
              trade_size = position (strat e)\<rparr>]
      else [])"
  by (simp add: step_signals_def Let_def)

text \<open>
  C2. A bar adds at most one trade to the log. When the buy check holds, the only
  trade the bar can add is a BUY whose size is the position after the buy, and the sell
  check is not consulted (replacing it by any other query \<open>g\<close> changes nothing). When
  the buy check fails, the only trade the bar can add is a SELL whose size is the position
  before the sell. Both carry the close of the bar as their price.
\<close>

theorem one_trade_per_bar:
  "(let s1 = on_bar ops b (strat e);
        e' = process_bar ops b e;
        new = bar_trades ops b e
    in trades e' = trades e @ new \<and>
       length new \<le> 1 \<and>
       (should_buy ops s1 \<longrightarrow>
          (new = [] \<or>
           new = [\<lparr>trade_datetime = datetime b, trade_type = BUY,
                   trade_price = close b, trade_size = position (strat e')\<rparr>]) \<and>
          process_bar (ops\<lparr>should_sell := g\<rparr>) b e = e') \<and>
       (\<not> should_buy ops s1 \<longrightarrow>
          (new = [] \<or>
           new = [\<lparr>trade_datetime = datetime b, trade_type = SELL,
                   trade_price = close b, trade_size = position s1\<rparr>])))"
proof -
  have t: "trades (process_bar ops b e) = trades (step_signals ops b (step_on_bar ops b e))"
    by (simp add: process_bar_def trades_step_equity)
  have s: "strat (process_bar ops b e) = strat (step_signals ops b (step_on_bar ops b e))"
    by (simp add: process_bar_def strat_step_equity)
  have g: "should_buy ops (on_bar ops b (strat e)) \<Longrightarrow>
      process_bar (ops\<lparr>should_sell := g\<rparr>) b e = process_bar ops b e"
    by (simp add: process_bar_def step_on_bar_def step_signals_def Let_def)
  show ?thesis
    unfolding Let_def bar_trades_def t s
    using g
    by (simp add: step_signals_trades trades_step_on_bar strat_step_on_bar)
qed

theorem one_trade_per_bar_witness:
  "bar_trades MACrossStrategy_ops (flat_bar ''t6'' 10)
     (run_loop MACrossStrategy_ops (closes_series [100, 1, 1, 1, 10]) 1000
        (MACrossStrategy_init 2 5 ''SMA''))
     = [\<lparr>trade_datetime = ''t6'', trade_type = BUY, trade_price = 10, trade_size = 95\<rparr>] \<and>
   position (strat (process_bar MACrossStrategy_ops (flat_bar ''t6'' 10)
     (run_loop MACrossStrategy_ops (closes_series [100, 1, 1, 1, 10]) 1000
        (MACrossStrategy_init 2 5 ''SMA'')))) = 95 \<and>
   bar_trades MACrossStrategy_ops (flat_bar ''t8'' 1)
     (run_loop MACrossStrategy_ops (closes_series [100, 1, 1, 1, 10, 10, 1]) 1000
        (MACrossStrategy_init 2 5 ''SMA''))
     = [\<lparr>trade_datetime = ''t8'', trade_type = SELL, trade_price = 1, trade_size = 95\<rparr>] \<and>
   position (strat (process_bar MACrossStrategy_ops (flat_bar ''t8'' 1)
     (run_loop MACrossStrategy_ops (closes_series [100, 1, 1, 1, 10, 10, 1]) 1000
        (MACrossStrategy_init 2 5 ''SMA'')))) = 0"
proof -
  let ?e5 = "run_loop MACrossStrategy_ops (closes_series [100, 1, 1, 1, 10]) 1000
        (MACrossStrategy_init 2 5 ''SMA'')"
  let ?e7 = "run_loop MACrossStrategy_ops (closes_series [100, 1, 1, 1, 10, 10, 1]) 1000
        (MACrossStrategy_init 2 5 ''SMA'')"
  have buy_check: "should_buy MACrossStrategy_ops
      (on_bar MACrossStrategy_ops (flat_bar ''t6'' 10) (strat ?e5))"
    by code_simp
  have sell_check: "\<not> should_buy MACrossStrategy_ops
      (on_bar MACrossStrategy_ops (flat_bar ''t8'' 1) (strat ?e7))"
    by code_simp
  have n6: "bar_trades MACrossStrategy_ops (flat_bar ''t6'' 10) ?e5
      = [\<lparr>trade_datetime = ''t6'', trade_type = BUY, trade_price = 10, trade_size = 95\<rparr>]"
    by code_simp
  have n8: "bar_trades MACrossStrategy_ops (flat_bar ''t8'' 1) ?e7
      = [\<lparr>trade_datetime = ''t8'', trade_type = SELL, trade_price = 1, trade_size = 95\<rparr>]"
    by code_simp
  have p6: "position (strat (process_bar MACrossStrategy_ops (flat_bar ''t6'' 10) ?e5)) = 95"
    by code_simp
  have p8: "position (on_bar MACrossStrategy_ops (flat_bar ''t8'' 1) (strat ?e7)) = 95"
    by code_simp
  have q8: "position (strat (process_bar MACrossStrategy_ops (flat_bar ''t8'' 1) ?e7)) = 0"
    by code_simp
  show ?thesis
    using one_trade_per_bar [where ops = MACrossStrategy_ops and b = "flat_bar ''t6'' 10"
            and e = ?e5 and g = "\<lambda>s. True"]
          one_trade_per_bar [where ops = MACrossStrategy_ops and b = "flat_bar ''t8'' 1"
            and e = ?e7 and g = "\<lambda>s. True"]
          buy_check sell_check n6 n8 p6 p8 q8
    by (simp add: Let_def flat_bar_def)
qed

lemma equity_curve_step_signals: "equity_curve (step_signals ops b e) = equity_curve e"
  by (simp add: step_signals_def Let_def)

lemma equity_curve_process_bar:
  "equity_curve (process_bar ops b e) = equity_curve e @
     [\<lparr>equity_datetime = datetime b,
       equity_value = cash (strat (process_bar ops b e))
                       + position (strat (process_bar ops b e)) * close b,
       equity_cash = cash (strat (process_bar ops b e)),
       equity_position_value = position (strat (process_bar ops b e)) * close b,
       equity_price = close b\<rparr>]"
  by (simp add: process_bar_def step_equity_def Let_def equity_curve_step_signals step_on_bar_def)

lemma length_equity_curve_fold:
  "length (equity_curve (fold (process_bar ops) bs e)) = length (equity_curve e) + length bs"
  by (induction bs arbitrary: e) (simp_all add: equity_curve_process_bar)

lemma equity_curve_fold_nth:
  "i < length bs \<Longrightarrow>
   equity_curve (fold (process_bar ops) bs e) ! (length (equity_curve e) + i) =
     (let st = strat (fold (process_bar ops) (take (Suc i) bs) e)
      in \<lparr>equity_datetime = datetime (bs ! i),
          equity_value = cash st + position st * close (bs ! i),
          equity_cash = cash st,
          equity_position_value = position st * close (bs ! i),
          equity_price = close (bs ! i)\<rparr>)"
proof (induction bs arbitrary: i rule: rev_induct)
  case Nil
  then show ?case by simp
next
  case (snoc b bs)
  show ?case
  proof (cases "i < length bs")
    case True
    then show ?thesis
      using snoc.IH [of i]
      by (simp add: equity_curve_process_bar nth_append length_equity_curve_fold)
  next
    case False
    with snoc.prems have "i = length bs" by simp
    then show ?thesis
      by (simp add: equity_curve_process_bar nth_append length_equity_curve_fold Let_def)
  qed
qed

text \<open>
  C7. A run appends one equity point per bar, and the point of bar \<open>i\<close> has
  \<open>value = cash + position_value\<close> and \<open>position_value = position * close\<close>, with the
  cash and the position of the strategy after bar \<open>i\<close> was processed.
\<close>

theorem equity_point_identity:
  "length (equity_curve (run_loop ops data initial_capital s)) = length data \<and>
   (\<forall>i < length data.
      let p = equity_curve (run_loop ops data initial_capital s) ! i;
          st = strat (run_loop ops (take (Suc i) data) initial_capital s)
      in equity_value p = equity_cash p + equity_position_value p \<and>
         equity_position_value p = position st * close (data ! i) \<and>
         equity_cash p = cash st \<and>
         equity_price p = close (data ! i))"
proof -
  have e0: "equity_curve (run_init ops initial_capital s) = []"
    by (simp add: run_init_def)
  have len: "length (equity_curve (run_loop ops data initial_capital s)) = length data"
    by (simp add: run_loop_def length_equity_curve_fold e0)
  show ?thesis
  proof (intro conjI allI impI)
    show "length (equity_curve (run_loop ops data initial_capital s)) = length data"
      by (rule len)
  next
    fix i assume i: "i < length data"
    show "let p = equity_curve (run_loop ops data initial_capital s) ! i;
             st = strat (run_loop ops (take (Suc i) data) initial_capital s)
          in equity_value p = equity_cash p + equity_position_value p \<and>
             equity_position_value p = position st * close (data ! i) \<and>
             equity_cash p = cash st \<and>
             equity_price p = close (data ! i)"
      using equity_curve_fold_nth [OF i, of ops "run_init ops initial_capital s"]
      by (simp add: run_loop_def e0 Let_def)
  qed
qed

theorem equity_point_identity_witness:
  "equity_curve (run_loop MACrossStrategy_ops (closes_series [100, 1, 1, 1, 10, 10, 1, 1, 1]) 1000
        (MACrossStrategy_init 2 5 ''SMA'')) ! 5
     = \<lparr>equity_datetime = ''t'', equity_value = 1000, equity_cash = 50,
        equity_position_value = 950, equity_price = 10\<rparr> \<and>
   position (strat (run_loop MACrossStrategy_ops (closes_series [100, 1, 1, 1, 10, 10]) 1000
        (MACrossStrategy_init 2 5 ''SMA''))) = 95 \<and>
   cash (strat (run_loop MACrossStrategy_ops (closes_series [100, 1, 1, 1, 10, 10]) 1000
        (MACrossStrategy_init 2 5 ''SMA''))) = 50"
proof -
  let ?data = "closes_series [100, 1, 1, 1, 10, 10, 1, 1, 1]"
  have i: "5 < length ?data" by (simp add: closes_series_def)
  have tk: "take (Suc 5) ?data = closes_series [100, 1, 1, 1, 10, 10]"
    by (simp add: closes_series_def)
  have pt: "equity_curve (run_loop MACrossStrategy_ops ?data 1000 (MACrossStrategy_init 2 5 ''SMA'')) ! 5
     = \<lparr>equity_datetime = ''t'', equity_value = 1000, equity_cash = 50,
        equity_position_value = 950, equity_price = 10\<rparr>"
    by code_simp
  have cl: "close (?data ! 5) = 10"
    by (simp add: closes_series_def flat_bar_def)
  show ?thesis
    using equity_point_identity [of MACrossStrategy_ops ?data 1000 "MACrossStrategy_init 2 5 ''SMA''",
            THEN conjunct2, rule_format, OF i]
    unfolding tk pt cl Let_def by simp
qed

lemma solvent_step_signals:
  assumes "solvent (strat e)" and "close b > 0"
  shows "solvent (strat (step_signals ops b e))"
proof -
  let ?c = "close b" and ?s = "strat e"
  have c: "?c * (cash ?s * 0.95 / ?c) = cash ?s * 0.95"
    using assms(2) by simp
  have pos: "cash ?s * 0.95 / ?c > 0"
    using assms by (simp add: solvent_def)
  show ?thesis
    using assms c pos
    by (auto simp: solvent_def strategy_invariant_def step_signals_def Let_def buy_def sell_def
        get_position_size_def intro: add_pos_pos mult_pos_pos)
qed

lemma solvent_bar_states:
  assumes "solvent (strat e)" and "close b > 0"
      and "\<forall>b s. position (on_bar ops b s) = position s \<and> cash (on_bar ops b s) = cash s
                 \<and> entry_price (on_bar ops b s) = entry_price s"
  shows "list_all solvent (bar_states ops b e) \<and> solvent (strat (process_bar ops b e))"
proof -
  have 1: "solvent (strat (step_on_bar ops b e))"
    using assms(1,3) by (simp add: solvent_def strategy_invariant_def step_on_bar_def)
  have 2: "solvent (strat (step_signals ops b (step_on_bar ops b e)))"
    using 1 assms(2) by (rule solvent_step_signals)
  have 3: "strat (step_equity b (step_signals ops b (step_on_bar ops b e)))
             = strat (step_signals ops b (step_on_bar ops b e))"
    by (simp add: step_equity_def Let_def)
  show ?thesis
    using 1 2 3 by (simp add: bar_states_def Let_def process_bar_def)
qed

lemma solvent_loop_states:
  assumes "\<forall>b s. position (on_bar ops b s) = position s \<and> cash (on_bar ops b s) = cash s
                 \<and> entry_price (on_bar ops b s) = entry_price s"
  shows "solvent (strat e) \<Longrightarrow> \<forall>b \<in> set data. close b > 0 \<Longrightarrow>
         list_all solvent (loop_states ops data e)"
proof (induction data arbitrary: e)
  case Nil
  then show ?case by simp
next
  case (Cons b bs)
  have b: "close b > 0" using Cons.prems(2) by simp
  have st: "list_all solvent (bar_states ops b e)" "solvent (strat (process_bar ops b e))"
    using solvent_bar_states [OF Cons.prems(1) b assms] by simp_all
  have "list_all solvent (loop_states ops bs (process_bar ops b e))"
    using Cons.IH [OF st(2)] Cons.prems(2) by simp
  with st(1) show ?case by simp
qed

text \<open>
  C1, amended. In a run with a positive initial capital over bars whose closes are all
  positive, of a strategy whose \<^verbatim>\<open>on_bar\<close> leaves position, cash and entry price alone
  and whose \<^verbatim>\<open>reset\<close> clears the position and the entry price, every state after a step
  of the engine has a non-negative position, and holds a position exactly when an entry
  price is recorded.
\<close>

theorem strategy_invariant_reachable:
  assumes "initial_capital > 0"
      and "\<forall>b \<in> set data. close b > 0"
      and "\<forall>b s. position (on_bar ops b s) = position s \<and> cash (on_bar ops b s) = cash s
                 \<and> entry_price (on_bar ops b s) = entry_price s"
      and "\<forall>s. position (reset ops s) = 0 \<and> entry_price (reset ops s) = None"
  shows "\<forall>t \<in> set (run_states ops data initial_capital s). strategy_invariant t"
proof -
  have init: "solvent (strat (run_init ops initial_capital s))"
    using assms(1,4) by (simp add: solvent_def strategy_invariant_def run_init_def)
  have "list_all solvent (run_states ops data initial_capital s)"
    using init solvent_loop_states [OF assms(3) init assms(2)]
    by (simp add: run_states_def)
  then show ?thesis
    by (simp add: list_all_iff solvent_def)
qed

lemma MACrossStrategy_on_bar_frame:
  "position (MACrossStrategy_on_bar b s) = position s \<and>
   cash (MACrossStrategy_on_bar b s) = cash s \<and>
   entry_price (MACrossStrategy_on_bar b s) = entry_price s"
  by (simp add: MACrossStrategy_on_bar_def Let_def)

lemma MACrossStrategy_reset_flat:
  "position (MACrossStrategy_reset s) = 0 \<and> entry_price (MACrossStrategy_reset s) = None"
  by (simp add: MACrossStrategy_reset_def BaseStrategy_reset_def)

theorem strategy_invariant_reachable_witness:
  "(0::real) < 1000 \<and>
   list_all (\<lambda>b. close b > 0) (closes_series [100, 1, 1, 1, 10, 10, 1, 1, 1]) \<and>
   list_all strategy_invariant
     (run_states MACrossStrategy_ops (closes_series [100, 1, 1, 1, 10, 10, 1, 1, 1]) 1000
        (MACrossStrategy_init 2 5 ''SMA'')) \<and>
   position (run_states MACrossStrategy_ops (closes_series [100, 1, 1, 1, 10, 10, 1, 1, 1]) 1000
        (MACrossStrategy_init 2 5 ''SMA'') ! 17) = 95"
proof -
  have closes: "\<forall>b \<in> set (closes_series [100, 1, 1, 1, 10, 10, 1, 1, 1]). close b > 0"
    by (simp add: closes_series_def flat_bar_def)
  have frame: "\<forall>b s. position (on_bar MACrossStrategy_ops b s) = position s
                 \<and> cash (on_bar MACrossStrategy_ops b s) = cash s
                 \<and> entry_price (on_bar MACrossStrategy_ops b s) = entry_price s"
    by (simp add: MACrossStrategy_ops_def MACrossStrategy_on_bar_frame)
  have rst: "\<forall>s. position (reset MACrossStrategy_ops s) = 0
                 \<and> entry_price (reset MACrossStrategy_ops s) = None"
    by (simp add: MACrossStrategy_ops_def MACrossStrategy_reset_flat)
  have pos: "position (run_states MACrossStrategy_ops (closes_series [100, 1, 1, 1, 10, 10, 1, 1, 1]) 1000
        (MACrossStrategy_init 2 5 ''SMA'') ! 17) = 95"
    by code_simp
  show ?thesis
    using strategy_invariant_reachable [OF _ closes frame rst, of 1000 "MACrossStrategy_init 2 5 ''SMA''"]
      closes pos
    by (simp add: list_all_iff)
qed

text \<open>
  C1 as stated fails. The moving-average strategy with periods 2 and 5 signals a buy
  at the sixth bar of both series below. With a close of zero there, or with an initial
  capital of zero, the size is zero, the buy succeeds, and the run ends flat with an
  entry price recorded.
\<close>

theorem strategy_invariant_counterexample:
  "\<not> list_all strategy_invariant
       (run_states MACrossStrategy_ops (closes_series [100, 1, 1, 1, 10, 0]) 100000
          (MACrossStrategy_init 2 5 ''SMA'')) \<and>
   \<not> list_all strategy_invariant
       (run_states MACrossStrategy_ops (closes_series [100, 1, 1, 1, 10, 10]) 0
          (MACrossStrategy_init 2 5 ''SMA''))"
  by code_simp

text \<open>
  C10. In a flat state with non-negative cash, \<^verbatim>\<open>buy(price, 0)\<close> returns true, leaves
  the position at 0 and the cash unchanged, and records \<open>price\<close> as the entry price. In
  the loop, when the buy check holds in such a state and the cash or the close is zero
  (so that the computed size is zero), a BUY trade of size 0 is logged.
\<close>

theorem zero_size_buy:
  assumes "position s = 0" and "cash s \<ge> 0"
  shows "fst (buy price (Some 0) s) \<and>
         position (snd (buy price (Some 0) s)) = 0 \<and>
         cash (snd (buy price (Some 0) s)) = cash s \<and>
         entry_price (snd (buy price (Some 0) s)) = Some price \<and>
         (strat e = s \<and> should_buy ops s \<and> (cash s = 0 \<or> close b = 0) \<longrightarrow>
            trades (step_signals ops b e) = trades e @
              [\<lparr>trade_datetime = datetime b, trade_type = BUY,
                trade_price = close b, trade_size = 0\<rparr>] \<and>
            position (strat (step_signals ops b e)) = 0 \<and>
            entry_price (strat (step_signals ops b e)) = Some (close b))"
  using assms
  by (auto simp: buy_def step_signals_def get_position_size_def Let_def)

theorem zero_size_buy_witness:
  "fst (buy 7 (Some 0) \<lparr>position = 0, cash = 1000, entry_price = None\<rparr>) \<and>
   snd (buy 7 (Some 0) \<lparr>position = 0, cash = 1000, entry_price = None\<rparr>)
     = \<lparr>position = 0, cash = 1000, entry_price = Some 7\<rparr> \<and>
   trades (process_bar MACrossStrategy_ops (flat_bar ''t6'' 0)
     (run_loop MACrossStrategy_ops (closes_series [100, 1, 1, 1, 10]) 100000
        (MACrossStrategy_init 2 5 ''SMA'')))
     = [\<lparr>trade_datetime = ''t6'', trade_type = BUY, trade_price = 0, trade_size = 0\<rparr>]"
proof -
  let ?b = "flat_bar ''t6'' 0"
  let ?e = "step_on_bar MACrossStrategy_ops ?b
     (run_loop MACrossStrategy_ops (closes_series [100, 1, 1, 1, 10]) 100000
        (MACrossStrategy_init 2 5 ''SMA''))"
  have pos: "position (strat ?e) = 0" by code_simp
  have csh: "cash (strat ?e) \<ge> 0" by code_simp
  have sb: "should_buy MACrossStrategy_ops (strat ?e)" by code_simp
  have cl: "close ?b = 0" by (simp add: flat_bar_def)
  have tr: "trades ?e = []" by code_simp
  have dt: "datetime ?b = ''t6''" by (simp add: flat_bar_def)
  have loop: "trades (step_signals MACrossStrategy_ops ?b ?e)
      = [\<lparr>trade_datetime = ''t6'', trade_type = BUY, trade_price = 0, trade_size = 0\<rparr>]"
    using zero_size_buy [OF pos csh, of 0 ?e MACrossStrategy_ops ?b] sb cl tr dt
    by simp
  have base: "fst (buy 7 (Some 0) \<lparr>position = 0, cash = 1000, entry_price = None\<rparr>) \<and>
     snd (buy 7 (Some 0) \<lparr>position = 0, cash = 1000, entry_price = None\<rparr>)
       = \<lparr>position = 0, cash = 1000, entry_price = Some 7\<rparr>"
    using zero_size_buy [of "\<lparr>position = 0, cash = 1000, entry_price = None\<rparr>" 7]
    by (simp add: strategy.equality)
  show ?thesis
    using base loop by (simp add: process_bar_def trades_step_equity)
qed

section \<open>The metrics\<close>

text \<open>
  C6 fails on the code. With \<^verbatim>\<open>verbose\<close> (the default) a run over an empty series
  raises IndexError at line 58, before anything else; only with \<^verbatim>\<open>verbose=False\<close> does
  it return the degenerate report.
\<close>

theorem run_empty_verbose_raises:
  "run True ops [] initial_capital s = Inl IndexError \<and>
   run False ops [] initial_capital s =
     Inr (map_of [(''final_value'', PyFloat initial_capital), (''return_pct'', PyInt 0),
                  (''total_trades'', PyInt 0), (''error'', PyStr ''No data'')])"
  by (simp add: run_def run_loop_def run_init_def calculate_metrics_def)

lemma gross_profit_nonneg: "gross_profit ps \<ge> 0"
  unfolding gross_profit_def by (induction ps) auto

text \<open>
  C9, amended. The profit factor is never an exception: it is infinity when there is
  no loss and some profit, 0 when there is neither, and otherwise the quotient of gross
  profit by gross loss rounded to two decimal places.
\<close>

theorem profit_factor_rounded:
  "calculate_profit_factor profits =
     Inr (if gross_loss profits = 0 \<and> gross_profit profits > 0 then PyInf
          else if gross_loss profits = 0 \<and> gross_profit profits = 0 then PyInt 0
          else PyFloat (py_round (gross_profit profits / gross_loss profits) 2))"
  using gross_profit_nonneg [of profits]
  by (auto simp: calculate_profit_factor_def py_div_def)

text \<open>
  C9 as stated fails: for the profits 1 and -3 the gross loss is not zero and the
  reported factor is 0.33, not one third.
\<close>

theorem profit_factor_counterexample:
  "gross_loss [1, -3] \<noteq> 0 \<and>
   calculate_profit_factor [1, -3] \<noteq> Inr (PyFloat (gross_profit [1, -3] / gross_loss [1, -3])) \<and>
   calculate_profit_factor [1, -3] = Inr (PyFloat (33 / 100))"
  by (simp add: calculate_profit_factor_def gross_profit_def gross_loss_def py_div_def py_round_def Let_def)

lemma trade_profits_Inr:
  "trade_profits bs ss n = Inr ps \<Longrightarrow>
   ps = map (\<lambda>i. (trade_price (ss ! i) - trade_price (bs ! i)) / trade_price (bs ! i) * 100) [0..<n]"
proof (induction n arbitrary: ps)
  case 0
  then show ?case by simp
next
  case (Suc n)
  then show ?case
    by (auto simp: Let_def py_div_def split: sum.splits if_splits)
qed

lemma trade_profits_pairs:
  assumes "trade_profits (buys_of ts) (sells_of ts) (pair_count ts) = Inr ps"
  shows "ps = map (pair_profit_pct ts) [0..<pair_count ts]"
  using trade_profits_Inr [OF assms] by (simp add: pair_profit_pct_def)

lemma trade_profits_append:
  "n \<le> length bs \<Longrightarrow> trade_profits (bs @ xs) ss n = trade_profits bs ss n"
  by (induction n) (auto simp: nth_append Let_def split: sum.splits)

lemma length_filter_map: "length (filter P (map f xs)) = length (filter (\<lambda>x. P (f x)) xs)"
  by (induction xs) simp_all

lemma calculate_metrics_cases:
  assumes "calculate_metrics data initial_capital e = Inr r" and "equity_curve e \<noteq> []"
  obtains profits where
    "trade_profits (buys_of (trades e)) (sells_of (trades e)) (pair_count (trades e)) = Inr profits"
    "r ''total_trades'' = Some (PyInt (int (pair_count (trades e))))"
    "r ''won_trades'' = Some (PyInt (int (length (filter (\<lambda>p. p > 0) profits))))"
    "r ''lost_trades'' = Some (PyInt (int (length (filter (\<lambda>p. p \<le> 0) profits))))"
  using assms
  by (auto simp: calculate_metrics_def Let_def buys_of_def sells_of_def pair_count_def
      split: sum.splits if_splits)

lemma report_trades_update:
  "map_of
     [(''initial_capital'', v1), (''final_value'', v2), (''return_pct'', v3),
      (''max_drawdown_pct'', v4), (''total_trades'', v5), (''won_trades'', v6),
      (''lost_trades'', v7), (''win_rate'', v8), (''avg_profit_pct'', v9),
      (''max_profit_pct'', v10), (''max_loss_pct'', v11), (''max_consecutive_losses'', v12),
      (''profit_factor'', v13), (''start_date'', v14), (''end_date'', v15),
      (''trading_days'', v16), (''trades'', w), (''equity_curve'', v18), (''signals'', v19)]
   = (map_of
     [(''initial_capital'', v1), (''final_value'', v2), (''return_pct'', v3),
      (''max_drawdown_pct'', v4), (''total_trades'', v5), (''won_trades'', v6),
      (''lost_trades'', v7), (''win_rate'', v8), (''avg_profit_pct'', v9),
      (''max_profit_pct'', v10), (''max_loss_pct'', v11), (''max_consecutive_losses'', v12),
      (''profit_factor'', v13), (''start_date'', v14), (''end_date'', v15),
      (''trading_days'', v16), (''trades'', v17), (''equity_curve'', v18), (''signals'', v19)])
     (''trades'' \<mapsto> w)"
  by (rule ext) simp

lemma calculate_metrics_trades_cong:
  assumes eq: "equity_curve e' = equity_curve e" and sg: "signals e' = signals e"
      and sl: "filter (\<lambda>t. trade_type t = SELL) (trades e') = filter (\<lambda>t. trade_type t = SELL) (trades e)"
      and n': "min (length (filter (\<lambda>t. trade_type t = BUY) (trades e')))
                   (length (filter (\<lambda>t. trade_type t = SELL) (trades e))) = n"
      and n: "min (length (filter (\<lambda>t. trade_type t = BUY) (trades e)))
                  (length (filter (\<lambda>t. trade_type t = SELL) (trades e))) = n"
      and p: "trade_profits (filter (\<lambda>t. trade_type t = BUY) (trades e'))
                (filter (\<lambda>t. trade_type t = SELL) (trades e)) n
              = trade_profits (filter (\<lambda>t. trade_type t = BUY) (trades e))
                (filter (\<lambda>t. trade_type t = SELL) (trades e)) n"
      and ne: "equity_curve e \<noteq> []"
  shows "calculate_metrics data initial_capital e'
           = map_sum id (\<lambda>r. r(''trades'' \<mapsto> PyTrades (trades e')))
               (calculate_metrics data initial_capital e)"
proof (cases "data = []")
  case True
  show ?thesis
    unfolding calculate_metrics_def Let_def eq sg sl n' n p
    by (simp add: ne True split: sum.splits split del: if_split)
next
  case False
  show ?thesis
    unfolding calculate_metrics_def Let_def eq sg sl n' n p
    by (simp add: ne False split: sum.splits split del: if_split del: map_of.simps)
      (intro allI impI conjI report_trades_update)
qed

text \<open>
  C8. In a report over a non-empty equity curve, \<open>total_trades\<close> is the smaller of the
  numbers of BUY and SELL trades, the \<open>i\<close>-th BUY being paired with the \<open>i\<close>-th SELL in
  arrival order; \<open>won_trades\<close> counts the pairs with a profit above zero and
  \<open>lost_trades\<close> those with a profit of zero or less, so a breakeven pair is lost.
  Buys appended beyond the last sell change nothing in the report but the log itself.
\<close>

theorem fifo_pairing_counts:
  assumes "calculate_metrics data initial_capital e = Inr r" and "equity_curve e \<noteq> []"
  shows "r ''total_trades'' = Some (PyInt (int (pair_count (trades e)))) \<and>
         r ''won_trades'' = Some (PyInt (int (length
            (filter (\<lambda>i. pair_profit_pct (trades e) i > 0) [0..<pair_count (trades e)])))) \<and>
         r ''lost_trades'' = Some (PyInt (int (length
            (filter (\<lambda>i. pair_profit_pct (trades e) i \<le> 0) [0..<pair_count (trades e)])))) \<and>
         (\<forall>xs. list_all (\<lambda>t. trade_type t = BUY) xs \<and>
               length (sells_of (trades e)) \<le> length (buys_of (trades e)) \<longrightarrow>
               calculate_metrics data initial_capital (e\<lparr>trades := trades e @ xs\<rparr>)
                 = Inr (r(''trades'' \<mapsto> PyTrades (trades e @ xs))))"
proof -
  from assms obtain profits where
    p: "trade_profits (buys_of (trades e)) (sells_of (trades e)) (pair_count (trades e)) = Inr profits"
    and t: "r ''total_trades'' = Some (PyInt (int (pair_count (trades e))))"
    and w: "r ''won_trades'' = Some (PyInt (int (length (filter (\<lambda>p. p > 0) profits))))"
    and l: "r ''lost_trades'' = Some (PyInt (int (length (filter (\<lambda>p. p \<le> 0) profits))))"
    by (rule calculate_metrics_cases)
  have ps: "profits = map (pair_profit_pct (trades e)) [0..<pair_count (trades e)]"
    using p by (rule trade_profits_pairs)
  have counts: "length (filter (\<lambda>p. p > 0) profits)
        = length (filter (\<lambda>i. pair_profit_pct (trades e) i > 0) [0..<pair_count (trades e)])"
      "length (filter (\<lambda>p. p \<le> 0) profits)
        = length (filter (\<lambda>i. pair_profit_pct (trades e) i \<le> 0) [0..<pair_count (trades e)])"
    unfolding ps by (rule length_filter_map)+
  have extra: "calculate_metrics data initial_capital (e\<lparr>trades := trades e @ xs\<rparr>)
                 = Inr (r(''trades'' \<mapsto> PyTrades (trades e @ xs)))"
    if xs: "list_all (\<lambda>t. trade_type t = BUY) xs"
      and le: "length (sells_of (trades e)) \<le> length (buys_of (trades e))" for xs
  proof -
    let ?e' = "e\<lparr>trades := trades e @ xs\<rparr>"
    let ?B = "filter (\<lambda>t. trade_type t = BUY) (trades e)"
    let ?S = "filter (\<lambda>t. trade_type t = SELL) (trades e)"
    have fb: "filter (\<lambda>t. trade_type t = BUY) xs = xs"
      using xs by (simp add: list_all_iff)
    have fs: "filter (\<lambda>t. trade_type t = SELL) xs = []"
      using xs by (simp add: list_all_iff)
    have le': "length ?S \<le> length ?B"
      using le by (simp add: buys_of_def sells_of_def)
    have 1: "filter (\<lambda>t. trade_type t = SELL) (trades ?e') = ?S"
      by (simp add: fs)
    have 2: "min (length (filter (\<lambda>t. trade_type t = BUY) (trades ?e'))) (length ?S) = length ?S"
      using le' by (simp add: fb)
    have 3: "min (length ?B) (length ?S) = length ?S"
      using le' by simp
    have 4: "trade_profits (filter (\<lambda>t. trade_type t = BUY) (trades ?e')) ?S (length ?S)
               = trade_profits ?B ?S (length ?S)"
      using trade_profits_append [OF le', of xs ?S] by (simp add: fb)
    have "calculate_metrics data initial_capital ?e'
            = map_sum id (\<lambda>r. r(''trades'' \<mapsto> PyTrades (trades ?e')))
                (calculate_metrics data initial_capital e)"
      by (rule calculate_metrics_trades_cong [OF _ _ 1 2 3 4 assms(2)]) simp_all
    then show ?thesis
      by (simp add: assms(1))
  qed
  show ?thesis
    using t w l extra by (simp add: counts)
qed

theorem fifo_pairing_counts_witness:
  "\<exists>r. calculate_metrics [flat_bar ''d7'' 5] 1000 example_engine = Inr r \<and>
       pair_count example_trades = 3 \<and>
       pair_profit_pct example_trades 0 = 0 \<and>
       r ''total_trades'' = Some (PyInt 3) \<and>
       r ''won_trades'' = Some (PyInt 1) \<and>
       r ''lost_trades'' = Some (PyInt 2) \<and>
       calculate_metrics [flat_bar ''d7'' 5] 1000
         (example_engine\<lparr>trades := example_trades @
            [\<lparr>trade_datetime = ''d8'', trade_type = BUY, trade_price = 7, trade_size = 1\<rparr>]\<rparr>)
         = Inr (r(''trades'' \<mapsto> PyTrades (example_trades @
            [\<lparr>trade_datetime = ''d8'', trade_type = BUY, trade_price = 7, trade_size = 1\<rparr>])))"
proof -
  let ?m = "calculate_metrics [flat_bar ''d7'' 5] 1000 example_engine"
  have "\<not> isl ?m"
    by code_simp
  then have m: "?m = Inr (projr ?m)"
    by simp
  have ne: "equity_curve example_engine \<noteq> []"
    by (simp add: example_engine_def)
  have tr: "trades example_engine = example_trades"
    by (simp add: example_engine_def)
  have n: "pair_count example_trades = 3"
    by code_simp
  have p0: "pair_profit_pct example_trades 0 = 0"
    by code_simp
  have w: "length (filter (\<lambda>i. pair_profit_pct example_trades i > 0) [0..<3]) = 1"
    by code_simp
  have l: "length (filter (\<lambda>i. pair_profit_pct example_trades i \<le> 0) [0..<3]) = 2"
    by code_simp
  have le: "length (sells_of example_trades) \<le> length (buys_of example_trades)"
    by code_simp
  show ?thesis
    using fifo_pairing_counts [OF m ne] le
    unfolding tr n w l
    by (intro exI [of _ "projr ?m"]) (simp add: m [symmetric] n p0)
qed

end
